theory Spec2Isabelle
  imports Main "HOL-Library.Sublist"
begin

section \<open>JavaScript strings\<close>

text \<open>
  A JavaScript string is modelled as a \<open>string\<close> (a list of characters); \<open>length\<close>
  counts its characters. Indices and lengths that the code computes with are JavaScript
  numbers holding integers, modelled as \<open>int\<close>, so that the sentinel \<open>-1\<close> of
  \<open>lastIndexOf\<close> and the from-the-end reading of a negative \<open>slice\<close> bound are
  written out.
\<close>

definition newline :: char where
  "newline = CHR 0x0A"

text \<open>\<open>s.slice(0, e)\<close>: a negative end counts from the end of the string, and the end is
  clamped to the string.\<close>

definition slice0 :: "string \<Rightarrow> int \<Rightarrow> string" where
  "slice0 s e =
     (let len = int (length s);
          to = (if e < 0 then max (len + e) 0 else min e len)
      in take (nat to) s)"

text \<open>\<open>s.lastIndexOf(c)\<close> for a one-character search string: the greatest index holding
  \<open>c\<close>, or \<open>-1\<close>.\<close>

definition lastIndexOf :: "string \<Rightarrow> char \<Rightarrow> int" where
  "lastIndexOf s c =
     (if c \<in> set s
      then int (length s) - 1 - int (length (takeWhile (\<lambda>x. x \<noteq> c) (rev s)))
      else - 1)"

section \<open>promptUtils.truncateContext\<close>

text \<open>The two literals the function appends.\<close>

definition markerNewline :: string where
  "markerNewline = newline # ''... (truncated)''"

definition markerHard :: string where
  "markerHard = ''... (truncated)''"

text \<open>
  \<^verbatim>\<open>
  truncateContext(context: string, maxLength: number = 4000): string {
    if (context.length <= maxLength) return context;
    const truncated = context.slice(0, maxLength);
    const lastNewline = truncated.lastIndexOf('\n');
    if (lastNewline > maxLength * 0.8) {
      return truncated.slice(0, lastNewline) + '\n... (truncated)';
    }
    return truncated + '... (truncated)';
  }
  \<close>
  \<open>maxLength\<close> is taken as an integer. The test \<open>lastNewline > maxLength * 0.8\<close> between
  an integer and four fifths of an integer is written without fractions as
  \<open>4 * maxLength < 5 * lastNewline\<close>.
\<close>

definition truncateContext :: "string \<Rightarrow> int \<Rightarrow> string" where
  "truncateContext context maxLength =
     (if int (length context) \<le> maxLength then context
      else
        let truncated = slice0 context maxLength;
            lastNewline = lastIndexOf truncated newline
        in if 4 * maxLength < 5 * lastNewline
           then slice0 truncated lastNewline @ markerNewline
           else truncated @ markerHard)"

text \<open>The call with the default argument, \<open>truncateContext(context)\<close>.\<close>

definition truncateContextDefault :: "string \<Rightarrow> string" where
  "truncateContextDefault context = truncateContext context 4000"

section \<open>Node's path module, POSIX flavour\<close>

text \<open>
  \<open>fileUtils\<close> and \<open>FileSystemTools\<close> call \<open>path.normalize\<close>, \<open>path.resolve\<close>,
  \<open>path.join\<close>, \<open>path.basename\<close> and \<open>path.extname\<close> of the Node.js platform
  library. They are modelled here after the algorithm of \<open>path.posix\<close>, on path
  segments: the only separator is \<open>/\<close>, and a backslash is an ordinary character.
\<close>

definition slash :: char where
  "slash = CHR ''/''"

definition backslash :: char where
  "backslash = CHR 0x5C"

definition dot :: char where
  "dot = CHR ''.''"

text \<open>The pieces of a string between occurrences of \<open>c\<close> (never an empty list).\<close>

fun splitOn :: "char \<Rightarrow> string \<Rightarrow> string list" where
  "splitOn c [] = [[]]"
| "splitOn c (x # xs) =
     (if x = c then [] # splitOn c xs
      else (x # hd (splitOn c xs)) # tl (splitOn c xs))"

fun joinSlash :: "string list \<Rightarrow> string" where
  "joinSlash [] = []"
| "joinSlash [s] = s"
| "joinSlash (s # t # ss) = s @ slash # joinSlash (t # ss)"

text \<open>
  \<open>normalizeString(path, allowAboveRoot)\<close>: a walk over the segments with the result
  built so far as a stack (\<open>acc\<close>, last segment first). Empty segments and \<open>.\<close> are
  skipped; \<open>..\<close> removes the last segment unless there is none or it is \<open>..\<close> itself, in
  which case \<open>..\<close> is kept only when \<open>allowAboveRoot\<close> holds.
\<close>

fun normSegs :: "bool \<Rightarrow> string list \<Rightarrow> string list \<Rightarrow> string list" where
  "normSegs allowAboveRoot acc [] = rev acc"
| "normSegs allowAboveRoot acc (s # ss) =
     (if s = [] \<or> s = ''.'' then normSegs allowAboveRoot acc ss
      else if s = ''..'' then
        (case acc of
           [] \<Rightarrow> normSegs allowAboveRoot (if allowAboveRoot then [''..''] else []) ss
         | t # acc' \<Rightarrow>
             if t \<noteq> ''..'' then normSegs allowAboveRoot acc' ss
             else normSegs allowAboveRoot (if allowAboveRoot then ''..'' # acc else acc) ss)
      else normSegs allowAboveRoot (s # acc) ss)"

definition normalizeString :: "string \<Rightarrow> bool \<Rightarrow> string" where
  "normalizeString path allowAboveRoot =
     joinSlash (normSegs allowAboveRoot [] (splitOn slash path))"

text \<open>\<open>path.normalize(path)\<close>.\<close>

definition pathNormalize :: "string \<Rightarrow> string" where
  "pathNormalize path =
     (if path = [] then ''.''
      else
        let isAbsolute = (hd path = slash);
            trailingSeparator = (last path = slash);
            p = normalizeString path (\<not> isAbsolute)
        in if p = [] then (if isAbsolute then ''/'' else if trailingSeparator then ''./'' else ''.'')
           else (if isAbsolute then ''/'' else []) @ p @ (if trailingSeparator then ''/'' else []))"

text \<open>
  \<open>path.resolve(p)\<close> with one argument. The working directory \<open>process.cwd()\<close> is the
  parameter \<open>cwd\<close>; it is consulted only when \<open>p\<close> is not absolute.
\<close>

definition pathResolve :: "string \<Rightarrow> string \<Rightarrow> string" where
  "pathResolve cwd p =
     (let (resolvedPath, resolvedAbsolute) =
            (if p = [] then ([], False) else (p @ ''/'', hd p = slash));
          (resolvedPath, resolvedAbsolute) =
            (if resolvedAbsolute \<or> cwd = [] then (resolvedPath, resolvedAbsolute)
             else (cwd @ ''/'' @ resolvedPath, hd cwd = slash));
          r = normalizeString resolvedPath (\<not> resolvedAbsolute)
      in if resolvedAbsolute then (if r \<noteq> [] then slash # r else ''/'')
         else (if r \<noteq> [] then r else ''.''))"

text \<open>\<open>path.join(a, b)\<close>: the non-empty arguments joined by \<open>/\<close>, then normalised.\<close>

definition pathJoin :: "string \<Rightarrow> string \<Rightarrow> string" where
  "pathJoin a b =
     (if a = [] \<and> b = [] then ''.''
      else if a = [] then pathNormalize b
      else if b = [] then pathNormalize a
      else pathNormalize (a @ ''/'' @ b))"

text \<open>\<open>path.basename(p)\<close>: trailing separators dropped, then what follows the last
  separator.\<close>

definition pathBasename :: "string \<Rightarrow> string" where
  "pathBasename p =
     (let q = dropWhile (\<lambda>c. c = slash) (rev p)
      in rev (takeWhile (\<lambda>c. c \<noteq> slash) q))"

text \<open>
  \<open>path.extname(p)\<close>: from the last \<open>.\<close> of the last path component to its end; empty
  when that component has no \<open>.\<close>, when its only \<open>.\<close> is its first character, and when
  the component is \<open>..\<close>.
\<close>

definition pathExtname :: "string \<Rightarrow> string" where
  "pathExtname p =
     (let b = pathBasename p;
          i = lastIndexOf b dot
      in if b = ''..'' \<or> i \<le> 0 then [] else drop (nat i) b)"

section \<open>fileUtils\<close>

text \<open>\<open>String.prototype.toLowerCase\<close>, on the ASCII letters: the codes 65 to 90 (\<open>A\<close> to
  \<open>Z\<close>) have bit 5 clear, and setting it adds 32.\<close>

definition lowerChar :: "char \<Rightarrow> char" where
  "lowerChar c =
     (let n = (of_char c :: nat)
      in if 65 \<le> n \<and> n \<le> 90
         then (case c of Char b0 b1 b2 b3 b4 b5 b6 b7 \<Rightarrow> Char b0 b1 b2 b3 b4 True b6 b7)
         else c)"

definition toLowerCase :: "string \<Rightarrow> string" where
  "toLowerCase s = map lowerChar s"

definition textExtensions :: "string list" where
  "textExtensions =
     [''.txt'', ''.md'', ''.js'', ''.ts'', ''.json'', ''.yaml'', ''.yml'',
      ''.html'', ''.css'', ''.csv'', ''.xml'', ''.log'', ''.env'',
      ''.jsx'', ''.tsx'', ''.py'', ''.java'', ''.cpp'', ''.c'', ''.h'']"

text \<open>
  \<^verbatim>\<open>
  isTextFile(filePath: string): boolean {
    return textExtensions.includes(path.extname(filePath).toLowerCase());
  }
  \<close>
\<close>

definition isTextFile :: "string \<Rightarrow> bool" where
  "isTextFile filePath \<longleftrightarrow> toLowerCase (pathExtname filePath) \<in> set textExtensions"

text \<open>
  \<open>s.replace(/^(\.\.(\/|\\|$))+/, '')\<close>: at the start of the string, the longest run of
  units, each \<open>..\<close> followed by \<open>/\<close>, by a backslash or by the end of the string, is
  removed.
\<close>

fun stripTraversal :: "string \<Rightarrow> string" where
  "stripTraversal (a # b # c # rest) =
     (if a = dot \<and> b = dot \<and> (c = slash \<or> c = backslash) then stripTraversal rest
      else a # b # c # rest)"
| "stripTraversal s = (if s = ''..'' then [] else s)"

text \<open>
  \<^verbatim>\<open>
  sanitizePath(inputPath: string): string {
    // Remove any parent directory traversal
    const normalizedPath = path.normalize(inputPath).replace(/^(\.\.(\/|\\|$))+/, '');
    return path.resolve(normalizedPath);
  }
  \<close>
\<close>

definition sanitizePath :: "string \<Rightarrow> string \<Rightarrow> string" where
  "sanitizePath cwd inputPath =
     (let normalizedPath = stripTraversal (pathNormalize inputPath)
      in pathResolve cwd normalizedPath)"

text \<open>
  Lexical containment of an absolute path in a root: the components of the root are the
  first components of the path, and no component of the path is \<open>..\<close>.
\<close>

definition components :: "string \<Rightarrow> string list" where
  "components p = filter (\<lambda>s. s \<noteq> []) (splitOn slash p)"

definition lexicallyInside :: "string \<Rightarrow> string \<Rightarrow> bool" where
  "lexicallyInside root p \<longleftrightarrow>
     p \<noteq> [] \<and> hd p = slash \<and> prefix (components root) (components p)
       \<and> ''..'' \<notin> set (components p)"

text \<open>\<open>path.isAbsolute(p)\<close>: the first character is the separator.\<close>

definition pathIsAbsolute :: "string \<Rightarrow> bool" where
  "pathIsAbsolute p \<longleftrightarrow> p \<noteq> [] \<and> hd p = slash"

text \<open>What \<open>process.cwd()\<close> returns: an absolute path without \<open>.\<close> or \<open>..\<close> components.\<close>

definition isWorkingDirectory :: "string \<Rightarrow> bool" where
  "isWorkingDirectory cwd \<longleftrightarrow>
     cwd \<noteq> [] \<and> hd cwd = slash \<and> ''.'' \<notin> set (components cwd)
       \<and> ''..'' \<notin> set (components cwd)"

section \<open>Auxiliary notions for the proofs about paths\<close>

text \<open>
  \<open>climbs\<close>: a list of segments that is a run of \<open>..\<close> followed by segments none of which
  is \<open>..\<close> (the first segment after the run is not \<open>..\<close> by construction). \<open>accOk\<close> is
  the same shape read on the stack of \<open>normSegs\<close>, \<open>segOk\<close> a segment that
  \<open>normSegs\<close> keeps, and \<open>stepAcc\<close> one step of \<open>normSegs\<close> on the stack.
\<close>

fun climbs :: "string list \<Rightarrow> bool" where
  "climbs [] = True"
| "climbs (t # xs) = (if t = ''..'' then climbs xs else ''..'' \<notin> set xs)"

fun accOk :: "string list \<Rightarrow> bool" where
  "accOk [] = True"
| "accOk (t # acc) = (if t = ''..'' then list_all (\<lambda>s. s = ''..'') acc else accOk acc)"

definition segOk :: "string \<Rightarrow> bool" where
  "segOk s \<longleftrightarrow> s \<noteq> [] \<and> s \<noteq> ''.'' \<and> slash \<notin> set s"

definition stepAcc :: "string list \<Rightarrow> string \<Rightarrow> string list" where
  "stepAcc acc s =
     (if s = [] \<or> s = ''.'' then acc
      else if s = ''..'' then
        (case acc of [] \<Rightarrow> [''..''] | t # acc' \<Rightarrow> if t \<noteq> ''..'' then acc' else ''..'' # acc)
      else s # acc)"

text \<open>\<open>innerNonempty\<close>: every segment but the last is non-empty (no \<open>//\<close> and no leading
  \<open>/\<close> in the string that was split).\<close>

fun innerNonempty :: "string list \<Rightarrow> bool" where
  "innerNonempty [] = True"
| "innerNonempty [s] = True"
| "innerNonempty (s # t # ss) = (s \<noteq> [] \<and> innerNonempty (t # ss))"

section \<open>Thrown values\<close>

text \<open>
  A value that a JavaScript call throws or a promise rejects with: an \<open>Error\<close> object
  with the name of its class, its \<open>code\<close> property when it has one (Node's system errors:
  \<open>ENOENT\<close>, \<open>EACCES\<close>, ...) and its message, or a value that is not an \<open>Error\<close>.
\<close>

datatype thrown =
    ErrorObj (errName: string) (errCode: "string option") (errMessage: string)
  | NonError

text \<open>\<open>new Error(message)\<close>.\<close>

definition newError :: "string \<Rightarrow> thrown" where
  "newError message = ErrorObj ''Error'' None message"

text \<open>\<open>error instanceof Error ? error.message : 'Unknown error'\<close>.\<close>

definition messageOf :: "thrown \<Rightarrow> string" where
  "messageOf e = (case e of ErrorObj n c m \<Rightarrow> m | NonError \<Rightarrow> ''Unknown error'')"

section \<open>FileSystemTools\<close>

datatype entryType = File | Directory

record FileInfo =
  name :: string
  path :: string
  type :: entryType
  content :: "string option"

text \<open>
  The file system as the three calls of \<open>fs/promises\<close> that the class makes: each either
  rejects with a thrown value or resolves. \<open>stat\<close> resolves to what \<open>isDirectory()\<close> of
  the result answers, \<open>readdir\<close> (with \<open>withFileTypes\<close>) to the entries, each a name with
  the answer of its \<open>isDirectory()\<close>, and \<open>readFile\<close> (as \<open>utf-8\<close>) to the text.
\<close>

record fileSystem =
  stat :: "string \<Rightarrow> thrown + bool"
  readdir :: "string \<Rightarrow> thrown + (string \<times> bool) list"
  readFileUtf8 :: "string \<Rightarrow> thrown + string"

text \<open>
  \<^verbatim>\<open>
  async readDirectory(dirPath: string): Promise<FileInfo[]> {
    try {
      const entries = await fs.readdir(dirPath, { withFileTypes: true });
      const files: FileInfo[] = [];
      for (const entry of entries) {
        const fullPath = path.join(dirPath, entry.name);
        files.push({ name: entry.name, path: fullPath,
                     type: entry.isDirectory() ? 'directory' : 'file' });
      }
      return files;
    } catch (error) {
      throw new Error(`Failed to read directory: ${error instanceof Error ? error.message : 'Unknown error'}`);
    }
  }
  \<close>
\<close>

definition readDirectory :: "fileSystem \<Rightarrow> string \<Rightarrow> thrown + FileInfo list" where
  "readDirectory fs dirPath =
     (case readdir fs dirPath of
        Inl error \<Rightarrow> Inl (newError (''Failed to read directory: '' @ messageOf error))
      | Inr entries \<Rightarrow>
          Inr (map (\<lambda>(entryName, entryIsDirectory).
                      \<lparr> name = entryName,
                        path = pathJoin dirPath entryName,
                        type = (if entryIsDirectory then Directory else File),
                        content = None \<rparr>) entries))"

text \<open>
  \<^verbatim>\<open>
  async readFile(filePath: string): Promise<FileInfo> {
    try {
      const content = await fs.readFile(filePath, 'utf-8');
      return { name: path.basename(filePath), path: filePath, type: 'file', content };
    } catch (error) {
      throw new Error(`Failed to read file: ${error instanceof Error ? error.message : 'Unknown error'}`);
    }
  }
  \<close>
\<close>

definition readFile :: "fileSystem \<Rightarrow> string \<Rightarrow> thrown + FileInfo" where
  "readFile fs filePath =
     (case readFileUtf8 fs filePath of
        Inl error \<Rightarrow> Inl (newError (''Failed to read file: '' @ messageOf error))
      | Inr fileText \<Rightarrow>
          Inr \<lparr> name = pathBasename filePath, path = filePath, type = File,
                content = Some fileText \<rparr>)"

text \<open>
  \<^verbatim>\<open>
  async getContextFromPath(targetPath: string): Promise<FileInfo[]> {
    const stat = await fs.stat(targetPath);
    if (stat.isDirectory()) {
      return this.readDirectory(targetPath);
    } else {
      return [await this.readFile(targetPath)];
    }
  }
  \<close>
  The call of \<open>fs.stat\<close> is outside every \<open>try\<close>: its rejection is the rejection of
  \<open>getContextFromPath\<close>, unchanged.
\<close>

definition getContextFromPath :: "fileSystem \<Rightarrow> string \<Rightarrow> thrown + FileInfo list" where
  "getContextFromPath fs targetPath =
     (case stat fs targetPath of
        Inl error \<Rightarrow> Inl error
      | Inr isDirectory \<Rightarrow>
          if isDirectory then readDirectory fs targetPath
          else (case readFile fs targetPath of
                  Inl error \<Rightarrow> Inl error
                | Inr info \<Rightarrow> Inr [info]))"

section \<open>ModelInterface\<close>

text \<open>
  A JavaScript value as it arrives in \<open>response.data\<close>: the response body is untyped
  (\<open>any\<close>), so the code may meet any value. Numbers are observed only through their
  truthiness and are kept as integers. An object is the list of its own properties.
\<close>

datatype jsval =
    Undefined
  | Null
  | Boolean bool
  | Number int
  | Str string
  | Array "jsval list"
  | Object "(string \<times> jsval) list"

text \<open>The truthiness that \<open>!v\<close> tests.\<close>

fun truthy :: "jsval \<Rightarrow> bool" where
  "truthy Undefined = False"
| "truthy Null = False"
| "truthy (Boolean b) = b"
| "truthy (Number n) = (n \<noteq> 0)"
| "truthy (Str s) = (s \<noteq> [])"
| "truthy (Array vs) = True"
| "truthy (Object kvs) = True"

definition typeError :: "string \<Rightarrow> thrown" where
  "typeError message = ErrorObj ''TypeError'' None message"

text \<open>
  The property read \<open>v.k\<close> for the property names the code reads (\<open>response\<close>, \<open>output\<close>,
  \<open>text\<close>, none of them a built-in property of a string, an array or another primitive):
  a \<open>TypeError\<close> on \<open>undefined\<close> and \<open>null\<close>, the property or \<open>undefined\<close> otherwise.
\<close>

fun getProp :: "jsval \<Rightarrow> string \<Rightarrow> thrown + jsval" where
  "getProp Undefined k =
     Inl (typeError (''Cannot read properties of undefined (reading '' @ [CHR 0x27] @ k @ [CHR 0x27] @ '')''))"
| "getProp Null k =
     Inl (typeError (''Cannot read properties of null (reading '' @ [CHR 0x27] @ k @ [CHR 0x27] @ '')''))"
| "getProp (Object kvs) k = Inr (case map_of kvs k of None \<Rightarrow> Undefined | Some v \<Rightarrow> v)"
| "getProp v k = Inr Undefined"

record LLMResponse =
  "text" :: jsval
  model :: string
  error :: "string option"

text \<open>
  \<open>error\<close> is the optional property \<open>error?: string\<close>: \<open>None\<close> when the object literal has
  no such property. \<open>text\<close> holds whatever value the code stores there.
\<close>

record config =
  togetherApiKey :: string
  ollamaBaseUrl :: string
  modelName :: string

text \<open>
  The HTTP client: \<open>axios.post(url, body, options)\<close> either rejects with a thrown value
  or resolves to a response, of which the code reads \<open>data\<close> only. The client is a
  parameter: the URL, the request body and the headers go in, the rejection or
  \<open>response.data\<close> comes out.
\<close>

type_synonym httpPost = "string \<Rightarrow> jsval \<Rightarrow> (string \<times> string) list \<Rightarrow> thrown + jsval"

text \<open>
  \<^verbatim>\<open>
  private formatPrompt(prompt: string, context: string): string {
    return `Context: ${context}\n\nQuestion: ${prompt}`;
  }
  \<close>
\<close>

definition formatPrompt :: "string \<Rightarrow> string \<Rightarrow> string" where
  "formatPrompt prompt context =
     ''Context: '' @ context @ [newline, newline] @ ''Question: '' @ prompt"

text \<open>
  \<^verbatim>\<open>
  async queryOllama(prompt: string, context: string): Promise<LLMResponse> {
    try {
      const response = await axios.post(`${config.ollamaBaseUrl}/api/generate`, {
        model: config.modelName,
        prompt: this.formatPrompt(prompt, context),
        stream: false
      });
      if (!response.data || !response.data.response) {
        throw new Error('Invalid response from Ollama');
      }
      return { text: response.data.response, model: 'ollama' };
    } catch (error) {
      console.error('Ollama error:', error);
      return { text: '', model: 'ollama',
               error: error instanceof Error ? error.message : 'Unknown error' };
    }
  }
  \<close>
  \<open>ollamaPost\<close> is the awaited call of \<open>axios.post\<close>. The body of the \<open>try\<close> is
  \<open>ollamaTry\<close>: \<open>Inl\<close> is what it throws. The \<open>catch\<close> is in \<open>queryOllama\<close>. Logging to
  the console is not modelled.
\<close>

definition ollamaPost :: "config \<Rightarrow> httpPost \<Rightarrow> string \<Rightarrow> string \<Rightarrow> thrown + jsval" where
  "ollamaPost cfg post prompt context =
     post (ollamaBaseUrl cfg @ ''/api/generate'')
          (Object [(''model'', Str (modelName cfg)),
                   (''prompt'', Str (formatPrompt prompt context)),
                   (''stream'', Boolean False)])
          []"

definition ollamaTry :: "config \<Rightarrow> httpPost \<Rightarrow> string \<Rightarrow> string \<Rightarrow> thrown + LLMResponse" where
  "ollamaTry cfg post prompt context =
     (case ollamaPost cfg post prompt context of
        Inl rejection \<Rightarrow> Inl rejection
      | Inr data \<Rightarrow>
          if \<not> truthy data then Inl (newError ''Invalid response from Ollama'')
          else (case getProp data ''response'' of
                  Inl e \<Rightarrow> Inl e
                | Inr r \<Rightarrow>
                    if \<not> truthy r then Inl (newError ''Invalid response from Ollama'')
                    else Inr \<lparr> text = r, model = ''ollama'', error = None \<rparr>))"

definition queryOllama :: "config \<Rightarrow> httpPost \<Rightarrow> string \<Rightarrow> string \<Rightarrow> LLMResponse" where
  "queryOllama cfg post prompt context =
     (case ollamaTry cfg post prompt context of
        Inr response \<Rightarrow> response
      | Inl e \<Rightarrow> \<lparr> text = Str [], model = ''ollama'', error = Some (messageOf e) \<rparr>)"

text \<open>
  \<^verbatim>\<open>
  async queryTogether(prompt: string, context: string): Promise<LLMResponse> {
    try {
      const response = await axios.post('https://api.together.xyz/inference',
        { model: config.modelName, prompt: this.formatPrompt(prompt, context),
          max_tokens: 512 },
        { headers: { Authorization: `Bearer ${config.togetherApiKey}` } });
      return { text: response.data.output.text, model: 'together' };
    } catch (error) {
      return { text: '', model: 'together',
               error: error instanceof Error ? error.message : 'Unknown error' };
    }
  }
  \<close>
\<close>

definition togetherPost :: "config \<Rightarrow> httpPost \<Rightarrow> string \<Rightarrow> string \<Rightarrow> thrown + jsval" where
  "togetherPost cfg post prompt context =
     post ''https://api.together.xyz/inference''
          (Object [(''model'', Str (modelName cfg)),
                   (''prompt'', Str (formatPrompt prompt context)),
                   (''max_tokens'', Number 512)])
          [(''Authorization'', ''Bearer '' @ togetherApiKey cfg)]"

definition togetherTry :: "config \<Rightarrow> httpPost \<Rightarrow> string \<Rightarrow> string \<Rightarrow> thrown + LLMResponse" where
  "togetherTry cfg post prompt context =
     (case togetherPost cfg post prompt context of
        Inl rejection \<Rightarrow> Inl rejection
      | Inr data \<Rightarrow>
          (case getProp data ''output'' of
             Inl e \<Rightarrow> Inl e
           | Inr output \<Rightarrow>
               (case getProp output ''text'' of
                  Inl e \<Rightarrow> Inl e
                | Inr t \<Rightarrow> Inr \<lparr> text = t, model = ''together'', error = None \<rparr>)))"

definition queryTogether :: "config \<Rightarrow> httpPost \<Rightarrow> string \<Rightarrow> string \<Rightarrow> LLMResponse" where
  "queryTogether cfg post prompt context =
     (case togetherTry cfg post prompt context of
        Inr response \<Rightarrow> response
      | Inl e \<Rightarrow> \<lparr> text = Str [], model = ''together'', error = Some (messageOf e) \<rparr>)"

section \<open>The query route\<close>

text \<open>
  The only caller of \<open>getContextFromPath\<close>, the handler of \<open>POST /api/query\<close> in
  \<open>server.ts\<close>, builds the context of the prompt from the records:
  \<^verbatim>\<open>
  const context = contextFiles
    .filter(file => file.content && fileUtils.isTextFile(file.path))
    .map(file => `File: ${file.name}\n${file.content}`)
    .join('\n\n');
  \<close>
  \<open>file.content\<close> is truthy when the property is there and is not the empty string.
\<close>

fun joinWith :: "string \<Rightarrow> string list \<Rightarrow> string" where
  "joinWith sep [] = []"
| "joinWith sep [s] = s"
| "joinWith sep (s # t # ss) = s @ sep @ joinWith sep (t # ss)"

definition queryContext :: "FileInfo list \<Rightarrow> string" where
  "queryContext contextFiles =
     joinWith [newline, newline]
       (map (\<lambda>file. ''File: '' @ name file @ [newline]
                      @ (case content file of None \<Rightarrow> ''undefined'' | Some c \<Rightarrow> c))
            (filter (\<lambda>file. (case content file of None \<Rightarrow> False | Some c \<Rightarrow> c \<noteq> [])
                             \<and> isTextFile (path file))
                    contextFiles))"

section \<open>Example environments\<close>

text \<open>
  Node's system error for a failed file system call: an \<open>Error\<close> with a \<open>code\<close> and the
  message \<open>CODE: description, syscall 'path'\<close>.
\<close>

definition systemError :: "string \<Rightarrow> string \<Rightarrow> string \<Rightarrow> string \<Rightarrow> thrown" where
  "systemError code description syscall p =
     ErrorObj ''Error'' (Some code)
       (code @ '': '' @ description @ '', '' @ syscall @ '' '' @ [CHR 0x27] @ p @ [CHR 0x27])"

text \<open>
  A storage directory \<open>/data\<close> with the file \<open>a.txt\<close> (text \<open>hello world\<close>), the
  subdirectory \<open>sub\<close>, the subdirectory \<open>locked\<close> that the process may not list, the file
  \<open>secret.txt\<close> that the process may not read and the file \<open>broken.txt\<close> whose read fails
  with an I/O error. Nothing else exists.
\<close>

definition storageFs :: fileSystem where
  "storageFs =
     \<lparr> stat = (\<lambda>p. if p = ''/data'' \<or> p = ''/data/sub'' \<or> p = ''/data/locked'' then Inr True
                   else if p = ''/data/a.txt'' \<or> p = ''/data/secret.txt''
                           \<or> p = ''/data/broken.txt'' then Inr False
                   else Inl (systemError ''ENOENT'' ''no such file or directory'' ''stat'' p)),
       readdir = (\<lambda>p. if p = ''/data''
                      then Inr [(''a.txt'', False), (''broken.txt'', False), (''locked'', True),
                                (''secret.txt'', False), (''sub'', True)]
                      else if p = ''/data/sub'' then Inr []
                      else if p = ''/data/locked''
                      then Inl (systemError ''EACCES'' ''permission denied'' ''scandir'' p)
                      else Inl (systemError ''ENOTDIR'' ''not a directory'' ''scandir'' p)),
       readFileUtf8 = (\<lambda>p. if p = ''/data/a.txt'' then Inr ''hello world''
                           else if p = ''/data/secret.txt''
                           then Inl (systemError ''EACCES'' ''permission denied'' ''open'' p)
                           else if p = ''/data/broken.txt''
                           then Inl (systemError ''EIO'' ''i/o error'' ''read'' p)
                           else Inl (systemError ''ENOENT'' ''no such file or directory'' ''open'' p)) \<rparr>"

definition exampleConfig :: config where
  "exampleConfig =
     \<lparr> togetherApiKey = ''key'', ollamaBaseUrl = ''http://localhost:11434'',
       modelName = ''llama2'' \<rparr>"

text \<open>A backend that answers every request with the same outcome.\<close>

definition constantBackend :: "thrown + jsval \<Rightarrow> httpPost" where
  "constantBackend outcome = (\<lambda>url body headers. outcome)"

section \<open>Facts about the string primitives\<close>

lemma length_takeWhile_less:
  "c \<in> set xs \<Longrightarrow> length (takeWhile (\<lambda>x. x \<noteq> c) xs) < length xs"
  by (induction xs) auto

lemma lastIndexOf_range: "- 1 \<le> lastIndexOf s c \<and> lastIndexOf s c < int (length s)"
proof (cases "c \<in> set s")
  case True
  then have "length (takeWhile (\<lambda>x. x \<noteq> c) (rev s)) < length (rev s)"
    by (intro length_takeWhile_less) simp
  with True show ?thesis by (simp add: lastIndexOf_def)
next
  case False
  then show ?thesis by (simp add: lastIndexOf_def)
qed

lemma lastIndexOf_hit:
  assumes "0 \<le> lastIndexOf s c"
  shows "s ! nat (lastIndexOf s c) = c"
proof -
  from assms have mem: "c \<in> set s"
    by (auto simp: lastIndexOf_def split: if_splits)
  define k where "k = length (takeWhile (\<lambda>x. x \<noteq> c) (rev s))"
  have klt: "k < length (rev s)"
    unfolding k_def using mem by (intro length_takeWhile_less) simp
  have "\<not> (rev s ! k \<noteq> c)"
    using klt unfolding k_def by (rule nth_length_takeWhile)
  then have "rev s ! k = c" by simp
  moreover from klt have "rev s ! k = s ! (length s - Suc k)"
    by (simp add: rev_nth)
  moreover from mem klt have "nat (lastIndexOf s c) = length s - Suc k"
    by (simp add: lastIndexOf_def k_def nat_diff_distrib')
  ultimately show ?thesis by simp
qed

lemma slice0_nonneg: "0 \<le> e \<Longrightarrow> slice0 s e = take (nat e) s"
  by (simp add: slice0_def Let_def min_def)

lemma length_markerNewline: "length markerNewline = 16"
  by (simp add: markerNewline_def)

lemma length_markerHard: "length markerHard = 15"
  by (simp add: markerHard_def)

section \<open>Truncation of the context\<close>

text \<open>
  Claim C8. \<open>truncateContext\<close> is the identity on every context whose length is at most
  \<open>maxLength\<close>: the string comes back unchanged, with no marker, so truncating again
  changes nothing.
\<close>

theorem truncateContext_short_identity:
  "int (length context) \<le> maxLength \<Longrightarrow>
     truncateContext context maxLength = context \<and>
     truncateContext (truncateContext context maxLength) maxLength
       = truncateContext context maxLength"
  by (simp add: truncateContext_def)

theorem truncateContext_short_identity_witness:
  "int (length ''hello world'') \<le> 4000 \<and> truncateContext ''hello world'' 4000 = ''hello world''
   \<and> truncateContext (truncateContext ''hello world'' 4000) 4000 = truncateContext ''hello world'' 4000"
  using truncateContext_short_identity [of "''hello world''" 4000] by simp

text \<open>With the default limit of 4000 characters.\<close>

lemma truncateContextDefault_short_identity:
  "length context \<le> 4000 \<Longrightarrow> truncateContextDefault context = context"
  by (simp add: truncateContextDefault_def truncateContext_def)

text \<open>
  Claim C5, as stated: for every context strictly longer than \<open>maxLength\<close>, the output is
  at most \<open>maxLength\<close> plus the length of the truncation marker long, and the cut is at
  \<open>maxLength\<close> or at a newline. \<open>maxLength\<close> is an unguarded number: for the limit \<open>-2\<close>,
  \<open>slice\<close> counts from the end, \<open>lastIndexOf\<close> answers \<open>-1\<close>, which is beyond four fifths
  of \<open>-2\<close>, and \<open>abcdef\<close> is cut at index 3, where there is no newline; the output has 19
  characters.
\<close>

theorem truncateContext_negative_limit_counterexample:
  "- 2 < int (length ''abcdef'')
   \<and> truncateContext ''abcdef'' (- 2) = ''abc'' @ markerNewline
   \<and> \<not> int (length (truncateContext ''abcdef'' (- 2))) \<le> - 2 + int (length markerNewline)
   \<and> ''abcdef'' ! 3 \<noteq> newline"
  by (simp add: truncateContext_def slice0_def lastIndexOf_def newline_def Let_def
        markerNewline_def)

text \<open>
  Claim C5, amended: for every limit \<open>maxLength\<close> that is not negative and every context
  strictly longer than it, the output is at most \<open>maxLength\<close> plus the length of the
  truncation marker long, and the context is cut either at exactly \<open>maxLength\<close> or at the
  position of a newline that lies beyond four fifths of \<open>maxLength\<close>, never before that
  threshold.
\<close>

theorem truncateContext_bound_and_cut:
  assumes "0 \<le> maxLength" and "maxLength < int (length context)"
  shows "length (truncateContext context maxLength) \<le> nat maxLength + length markerNewline
       \<and> (truncateContext context maxLength = take (nat maxLength) context @ markerHard
          \<or> (\<exists>p. 4 * maxLength < 5 * p \<and> p < maxLength
                 \<and> context ! nat p = newline
                 \<and> truncateContext context maxLength = take (nat p) context @ markerNewline))"
proof -
  define truncated where "truncated = slice0 context maxLength"
  define p where "p = lastIndexOf truncated newline"
  have tr: "truncated = take (nat maxLength) context"
    using assms by (simp add: truncated_def slice0_nonneg)
  have lt: "length truncated = nat maxLength"
    using assms by (simp add: tr)
  have prange: "- 1 \<le> p \<and> p < maxLength"
    using lastIndexOf_range [of truncated newline] lt assms by (simp add: p_def)
  have unf: "truncateContext context maxLength =
      (if 4 * maxLength < 5 * p then slice0 truncated p @ markerNewline
       else truncated @ markerHard)"
    using assms unfolding truncateContext_def p_def truncated_def Let_def by simp
  show ?thesis
  proof (cases "4 * maxLength < 5 * p")
    case True
    with assms have p0: "0 \<le> p" by linarith
    have "slice0 truncated p = take (nat p) context"
      using p0 prange by (simp add: slice0_nonneg tr min_def)
    with True unf
    have res: "truncateContext context maxLength = take (nat p) context @ markerNewline"
      by simp
    have "truncated ! nat p = newline"
      using p0 unfolding p_def by (rule lastIndexOf_hit)
    then have hit: "context ! nat p = newline"
      using prange p0 by (simp add: tr)
    have "length (take (nat p) context) \<le> nat maxLength"
      using prange p0 assms by simp
    with res True prange hit show ?thesis by auto
  next
    case False
    with unf tr
    have res: "truncateContext context maxLength = take (nat maxLength) context @ markerHard"
      by simp
    then show ?thesis using assms by (simp add: length_markerNewline length_markerHard)
  qed
qed


theorem truncateContext_bound_and_cut_witness:
  "(0::int) \<le> 8 \<and> 8 < int (length (''abcdefg'' @ newline # ''hij''))
   \<and> length (truncateContext (''abcdefg'' @ newline # ''hij'') 8) \<le> nat 8 + length markerNewline
   \<and> truncateContext (''abcdefg'' @ newline # ''hij'') 8 = ''abcdefg'' @ markerNewline"
proof -
  have h1: "(0::int) \<le> 8" by simp
  have h2: "8 < int (length (''abcdefg'' @ newline # ''hij''))" by simp
  have v: "truncateContext (''abcdefg'' @ newline # ''hij'') 8 = ''abcdefg'' @ markerNewline"
    by (simp add: truncateContext_def slice0_def lastIndexOf_def newline_def Let_def)
  from truncateContext_bound_and_cut [OF h1 h2] h1 h2 v show ?thesis by simp
qed

text \<open>
  Claim C4, as stated: for every context longer than the limit the output ends with the
  marker \<open>\n... (truncated)\<close>, in the newline branch and in the hard-limit branch alike.
  The hard-limit branch appends \<open>... (truncated)\<close> without the newline, so the claim
  fails on a context without a newline.
\<close>

theorem truncateContext_same_marker_counterexample:
  "5 < int (length ''abcdefghij'')
   \<and> truncateContext ''abcdefghij'' 5 = ''abcde... (truncated)''
   \<and> \<not> suffix markerNewline (truncateContext ''abcdefghij'' 5)"
  by (simp add: truncateContext_def slice0_def lastIndexOf_def newline_def Let_def
        markerNewline_def markerHard_def suffix_def)

text \<open>
  Claim C4, amended: for a context longer than the limit, the newline branch appends
  \<open>\n... (truncated)\<close> and the hard-limit branch appends \<open>... (truncated)\<close>, the same
  marker without its leading newline; in both branches the output ends with
  \<open>... (truncated)\<close>.
\<close>

theorem truncateContext_markers:
  assumes "maxLength < int (length context)"
  shows "(4 * maxLength < 5 * lastIndexOf (slice0 context maxLength) newline \<longrightarrow>
            truncateContext context maxLength
              = slice0 (slice0 context maxLength) (lastIndexOf (slice0 context maxLength) newline)
                  @ markerNewline)
       \<and> (\<not> 4 * maxLength < 5 * lastIndexOf (slice0 context maxLength) newline \<longrightarrow>
            truncateContext context maxLength = slice0 context maxLength @ markerHard)
       \<and> suffix markerHard (truncateContext context maxLength)
       \<and> markerNewline = newline # markerHard"
  using assms
  by (auto simp: truncateContext_def Let_def markerNewline_def markerHard_def suffix_def)

theorem truncateContext_markers_witness:
  "5 < int (length ''abcdefghij'')
   \<and> truncateContext ''abcdefghij'' 5 = slice0 ''abcdefghij'' 5 @ markerHard
   \<and> suffix markerHard (truncateContext ''abcdefghij'' 5)"
proof -
  have h: "5 < int (length ''abcdefghij'')" by simp
  have c: "\<not> 4 * 5 < 5 * lastIndexOf (slice0 ''abcdefghij'' 5) newline"
    by (simp add: slice0_def lastIndexOf_def newline_def)
  from truncateContext_markers [OF h] h c show ?thesis by blast
qed


section \<open>Facts about path segments\<close>

lemma splitOn_nonempty: "splitOn c s \<noteq> []"
  by (induction s) auto

lemma splitOn_append: "splitOn c (a @ c # b) = splitOn c a @ splitOn c b"
proof (induction a)
  case Nil
  then show ?case by simp
next
  case (Cons x a)
  then show ?case using splitOn_nonempty [of c a] by (cases "splitOn c a") auto
qed

lemma splitOn_absent: "c \<notin> set s \<Longrightarrow> splitOn c s = [s]"
  by (induction s) auto

lemma splitOn_free: "t \<in> set (splitOn c s) \<Longrightarrow> c \<notin> set t"
proof (induction s arbitrary: t)
  case Nil
  then show ?case by simp
next
  case (Cons x s)
  obtain h r where hr: "splitOn c s = h # r"
    using splitOn_nonempty [of c s] by (cases "splitOn c s") auto
  have ih: "c \<notin> set h" "\<And>u. u \<in> set r \<Longrightarrow> c \<notin> set u"
    using Cons.IH hr by simp_all
  show ?case
  proof (cases "x = c")
    case True
    with Cons.prems hr ih show ?thesis by auto
  next
    case False
    with Cons.prems hr have "t = x # h \<or> t \<in> set r" by simp
    with ih False show ?thesis by auto
  qed
qed


lemma splitOn_joinSlash:
  "ss \<noteq> [] \<Longrightarrow> \<forall>s \<in> set ss. slash \<notin> set s \<Longrightarrow> splitOn slash (joinSlash ss) = ss"
proof (induction ss rule: joinSlash.induct)
  case 1
  then show ?case by simp
next
  case (2 s)
  then show ?case by (simp add: splitOn_absent)
next
  case (3 s t ss)
  then show ?case by (simp add: splitOn_append splitOn_absent)
qed



lemma normSegs_stepAcc: "normSegs True acc (s # ss) = normSegs True (stepAcc acc s) ss"
  by (simp add: stepAcc_def split: list.split)

lemma accOk_stepAcc: "accOk acc \<Longrightarrow> accOk (stepAcc acc s)"
  by (cases acc) (simp_all add: stepAcc_def)

lemma segOk_dots: "segOk ''..''"
  by (simp add: segOk_def slash_def)

lemma segOk_stepAcc:
  "list_all segOk acc \<Longrightarrow> slash \<notin> set s \<Longrightarrow> list_all segOk (stepAcc acc s)"
  by (cases acc) (simp_all add: stepAcc_def segOk_dots, simp_all add: segOk_def)

lemma normSegs_invariant:
  "accOk acc \<Longrightarrow> list_all segOk acc \<Longrightarrow> list_all (\<lambda>s. slash \<notin> set s) ss \<Longrightarrow>
     \<exists>acc'. normSegs True acc ss = rev acc' \<and> accOk acc' \<and> list_all segOk acc'"
proof (induction ss arbitrary: acc)
  case Nil
  then show ?case by auto
next
  case (Cons s ss)
  from Cons.prems have s: "slash \<notin> set s" and ss: "list_all (\<lambda>s. slash \<notin> set s) ss"
    by simp_all
  have "accOk (stepAcc acc s)" using Cons.prems(1) by (rule accOk_stepAcc)
  moreover have "list_all segOk (stepAcc acc s)" using Cons.prems(2) s by (rule segOk_stepAcc)
  ultimately show ?case
    using Cons.IH [of "stepAcc acc s"] ss by (simp only: normSegs_stepAcc)
qed

lemma climbs_all_dots: "list_all (\<lambda>s. s = ''..'') xs \<Longrightarrow> climbs (xs @ ys) = climbs ys"
  by (induction xs) simp_all

lemma climbs_snoc: "climbs xs \<Longrightarrow> t \<noteq> ''..'' \<Longrightarrow> climbs (xs @ [t])"
  by (induction xs) auto

lemma accOk_climbs: "accOk acc \<Longrightarrow> climbs (rev acc)"
proof (induction acc)
  case Nil
  then show ?case by simp
next
  case (Cons t acc)
  show ?case
  proof (cases "t = ''..''")
    case True
    with Cons.prems have "list_all (\<lambda>s. s = ''..'') (rev acc)" by (simp add: list_all_iff)
    from climbs_all_dots [OF this, of "[t]"] True show ?thesis by simp
  next
    case False
    with Cons.prems have "accOk acc" by simp
    then have "climbs (rev acc)" by (rule Cons.IH)
    from climbs_snoc [OF this False] show ?thesis by simp
  qed
qed

lemma normSegs_relative:
  "climbs (normSegs True [] (splitOn slash p))
     \<and> list_all segOk (normSegs True [] (splitOn slash p))"
proof -
  have c: "list_all (\<lambda>s. slash \<notin> set s) (splitOn slash p)"
    using splitOn_free [of _ slash p] by (simp add: list_all_iff)
  have "accOk []" "list_all segOk []" by simp_all
  from normSegs_invariant [OF this c]
  obtain acc' where r: "normSegs True [] (splitOn slash p) = rev acc'"
    and ok: "accOk acc'" and seg: "list_all segOk acc'"
    by blast
  from accOk_climbs [OF ok] seg show ?thesis unfolding r by simp
qed




lemma segOk_joinSlash_nonempty: "list_all segOk ss \<Longrightarrow> ss \<noteq> [] \<Longrightarrow> joinSlash ss \<noteq> []"
  by (induction ss rule: joinSlash.induct) (auto simp: segOk_def)

lemma segOk_split_join:
  "list_all segOk ss \<Longrightarrow> ss \<noteq> [] \<Longrightarrow> splitOn slash (joinSlash ss) = ss"
  by (rule splitOn_joinSlash) (auto simp: list_all_iff segOk_def)

lemma splitOn_trailing: "splitOn c (s @ [c]) = splitOn c s @ [[]]"
  using splitOn_append [of c s "[]"] by simp








lemma splitOn_chars: "t \<in> set (splitOn c s) \<Longrightarrow> set t \<subseteq> set s"
proof (induction s arbitrary: t)
  case Nil
  then show ?case by simp
next
  case (Cons x s)
  obtain h r where hr: "splitOn c s = h # r"
    using splitOn_nonempty [of c s] by (cases "splitOn c s") auto
  have ih: "set h \<subseteq> set s" "\<And>u. u \<in> set r \<Longrightarrow> set u \<subseteq> set s"
    using Cons.IH hr by simp_all
  from Cons.prems hr have "t = [] \<or> t = h \<or> t = x # h \<or> t \<in> set r"
    by (auto split: if_splits)
  with ih show ?case by auto
qed

lemma joinSlash_chars: "set (joinSlash ss) \<subseteq> insert slash (\<Union>s \<in> set ss. set s)"
  by (induction ss rule: joinSlash.induct) auto

lemma stepAcc_elems: "set (stepAcc acc s) \<subseteq> insert ''..'' (insert s (set acc))"
  by (cases acc) (auto simp: stepAcc_def)

lemma normSegs_elems:
  "set (normSegs True acc ss) \<subseteq> insert ''..'' (set acc \<union> set ss)"
proof (induction ss arbitrary: acc)
  case Nil
  then show ?case by auto
next
  case (Cons s ss)
  have "set (normSegs True (stepAcc acc s) ss) \<subseteq> insert ''..'' (set (stepAcc acc s) \<union> set ss)"
    by (rule Cons.IH)
  with stepAcc_elems [of acc s] show ?case
    unfolding normSegs_stepAcc by auto
qed

lemma innerNonempty_snoc: "list_all (\<lambda>s. s \<noteq> []) ss \<Longrightarrow> innerNonempty (ss @ [t])"
  by (induction ss rule: innerNonempty.induct) auto

lemma innerNonempty_all: "list_all (\<lambda>s. s \<noteq> []) ss \<Longrightarrow> innerNonempty ss"
  by (induction ss rule: innerNonempty.induct) auto

lemma innerNonempty_tail: "innerNonempty (s # ss) \<Longrightarrow> innerNonempty ss"
  by (cases ss) auto

lemma stripTraversal_stays_relative:
  "backslash \<notin> set m \<Longrightarrow> innerNonempty (splitOn slash m) \<Longrightarrow>
     \<not> pathIsAbsolute (stripTraversal m)"
proof (induction m rule: stripTraversal.induct)
  case (1 a b c rest)
  show ?case
  proof (cases "a = dot \<and> b = dot \<and> (c = slash \<or> c = backslash)")
    case True
    with "1.prems"(1) have c: "c = slash" by auto
    with True have "splitOn slash (a # b # c # rest) = ''..'' # splitOn slash rest"
      by (simp add: dot_def slash_def)
    with "1.prems"(2) have "innerNonempty (''..'' # splitOn slash rest)" by simp
    then have "innerNonempty (splitOn slash rest)" by (rule innerNonempty_tail)
    moreover from "1.prems"(1) have "backslash \<notin> set rest" by simp
    ultimately have "\<not> pathIsAbsolute (stripTraversal rest)"
      using "1.IH" True by blast
    moreover from True have "stripTraversal (a # b # c # rest) = stripTraversal rest"
      by (subst stripTraversal.simps) (rule if_P)
    ultimately show ?thesis by simp
  next
    case False
    then have st: "stripTraversal (a # b # c # rest) = a # b # c # rest"
      by (subst stripTraversal.simps) (rule if_not_P)
    have "a \<noteq> slash"
    proof
      assume "a = slash"
      then have "splitOn slash (a # b # c # rest) = [] # splitOn slash (b # c # rest)" by simp
      moreover obtain h r where "splitOn slash (b # c # rest) = h # r"
        using splitOn_nonempty [of slash "b # c # rest"]
        by (cases "splitOn slash (b # c # rest)") auto
      ultimately show False using "1.prems"(2) by simp
    qed
    with st show ?thesis by (simp add: pathIsAbsolute_def)
  qed
qed (auto simp: pathIsAbsolute_def split: if_splits)

lemma pathNormalize_relative_shape:
  assumes "p \<noteq> []" and "hd p \<noteq> slash"
  shows "pathNormalize p = ''.'' \<or> pathNormalize p = ''./''
       \<or> (normSegs True [] (splitOn slash p) \<noteq> []
           \<and> (pathNormalize p = joinSlash (normSegs True [] (splitOn slash p))
              \<or> pathNormalize p = joinSlash (normSegs True [] (splitOn slash p)) @ [slash]))"
proof (cases "normSegs True [] (splitOn slash p) = []")
  case True
  then have "normalizeString p True = []" by (simp add: normalizeString_def)
  with assms show ?thesis by (simp add: pathNormalize_def Let_def slash_def)
next
  case False
  moreover have "list_all segOk (normSegs True [] (splitOn slash p))"
    using normSegs_relative [of p] by simp
  ultimately have "joinSlash (normSegs True [] (splitOn slash p)) \<noteq> []"
    by (simp add: segOk_joinSlash_nonempty)
  with assms False show ?thesis
    by (simp add: pathNormalize_def Let_def slash_def normalizeString_def)
qed

lemma pathNormalize_chars:
  assumes "p = [] \<or> hd p \<noteq> slash"
  shows "set (pathNormalize p) \<subseteq> insert dot (insert slash (set p))"
proof (cases "p = []")
  case True
  then show ?thesis by (simp add: pathNormalize_def dot_def)
next
  case False
  with assms have rel: "hd p \<noteq> slash" by simp
  define segs where "segs = normSegs True [] (splitOn slash p)"
  have "\<forall>t \<in> set segs. set t \<subseteq> insert dot (set p)"
  proof
    fix t assume "t \<in> set segs"
    with normSegs_elems [of "[]" "splitOn slash p"]
    have "t = ''..'' \<or> t \<in> set (splitOn slash p)" by (auto simp: segs_def)
    then show "set t \<subseteq> insert dot (set p)"
      using splitOn_chars [of t slash p] by (auto simp: dot_def)
  qed
  with joinSlash_chars [of segs]
  have j: "set (joinSlash segs) \<subseteq> insert dot (insert slash (set p))" by auto
  from pathNormalize_relative_shape [OF False rel]
  have "pathNormalize p = ''.'' \<or> pathNormalize p = ''./''
      \<or> pathNormalize p = joinSlash segs \<or> pathNormalize p = joinSlash segs @ [slash]"
    unfolding segs_def by blast
  then show ?thesis
  proof (elim disjE)
    assume "pathNormalize p = ''.''"
    then show ?thesis by (simp add: dot_def)
  next
    assume "pathNormalize p = ''./''"
    then show ?thesis by (simp add: dot_def slash_def)
  next
    assume "pathNormalize p = joinSlash segs"
    with j show ?thesis by simp
  next
    assume "pathNormalize p = joinSlash segs @ [slash]"
    with j show ?thesis by simp
  qed
qed

lemma pathNormalize_relative_inner:
  assumes "p = [] \<or> hd p \<noteq> slash"
  shows "innerNonempty (splitOn slash (pathNormalize p))"
proof (cases "p = []")
  case True
  then show ?thesis by (simp add: pathNormalize_def slash_def)
next
  case False
  with assms have rel: "hd p \<noteq> slash" by simp
  define segs where "segs = normSegs True [] (splitOn slash p)"
  have ok: "list_all segOk segs"
    using normSegs_relative [of p] by (simp add: segs_def)
  then have ne: "list_all (\<lambda>s. s \<noteq> []) segs"
    by (simp add: list_all_iff segOk_def)
  from pathNormalize_relative_shape [OF False rel]
  have "pathNormalize p = ''.'' \<or> pathNormalize p = ''./''
      \<or> (segs \<noteq> [] \<and> pathNormalize p = joinSlash segs)
      \<or> (segs \<noteq> [] \<and> pathNormalize p = joinSlash segs @ [slash])"
    unfolding segs_def by blast
  then show ?thesis
  proof (elim disjE conjE)
    assume "pathNormalize p = ''.''"
    then show ?thesis by (simp add: slash_def)
  next
    assume "pathNormalize p = ''./''"
    then show ?thesis by (simp add: slash_def)
  next
    assume "segs \<noteq> []" and "pathNormalize p = joinSlash segs"
    with ok ne show ?thesis by (simp add: segOk_split_join innerNonempty_all)
  next
    assume "segs \<noteq> []" and "pathNormalize p = joinSlash segs @ [slash]"
    with ok ne show ?thesis
      by (simp add: splitOn_trailing segOk_split_join innerNonempty_snoc)
  qed
qed

lemma relative_input_stripped_relative:
  assumes "\<not> pathIsAbsolute inputPath" and "backslash \<notin> set inputPath"
  shows "\<not> pathIsAbsolute (stripTraversal (pathNormalize inputPath))"
proof -
  from assms(1) have rel: "inputPath = [] \<or> hd inputPath \<noteq> slash"
    by (auto simp: pathIsAbsolute_def)
  have "set (pathNormalize inputPath) \<subseteq> insert dot (insert slash (set inputPath))"
    using rel by (rule pathNormalize_chars)
  moreover have "backslash \<noteq> dot" "backslash \<noteq> slash"
    by (simp_all add: backslash_def dot_def slash_def)
  ultimately have "backslash \<notin> set (pathNormalize inputPath)"
    using assms(2) by blast
  moreover have "innerNonempty (splitOn slash (pathNormalize inputPath))"
    using rel by (rule pathNormalize_relative_inner)
  ultimately show ?thesis by (rule stripTraversal_stays_relative)
qed

section \<open>Evaluation of the path functions on concrete strings\<close>

text \<open>An equation for \<open>splitOn\<close> that evaluates the recursive call once.\<close>

lemma splitOn_eval:
  "splitOn c (x # xs) =
     (case splitOn c xs of [] \<Rightarrow> [] | h # r \<Rightarrow> if x = c then [] # h # r else (x # h) # r)"
  using splitOn_nonempty [of c xs] by (cases "splitOn c xs") auto

lemmas path_eval =
  sanitizePath_def pathNormalize_def pathResolve_def normalizeString_def
  lexicallyInside_def components_def isWorkingDirectory_def pathIsAbsolute_def
  slash_def dot_def backslash_def Let_def splitOn_eval

section \<open>Path sanitising\<close>


text \<open>
  A relative input can leave an absolute path behind as well: on POSIX the backslash is
  not a separator for \<open>path.normalize\<close>, but the regular expression strips \<open>..\<close>
  followed by a backslash.
\<close>

lemma sanitizePath_backslash_escape:
  "\<not> pathIsAbsolute (''..'' @ [backslash] @ ''/etc/passwd'')
   \<and> sanitizePath ''/home/app'' (''..'' @ [backslash] @ ''/etc/passwd'') = ''/etc/passwd''"
  by (simp add: path_eval del: splitOn.simps(2))



section \<open>Text files\<close>

lemma pathBasename_plain:
  assumes "slash \<notin> set p"
  shows "pathBasename p = p"
proof -
  have d: "dropWhile (\<lambda>c. c = slash) (rev p) = rev p"
    using assms by (cases "rev p") auto
  have t: "takeWhile (\<lambda>c. c \<noteq> slash) (rev p) = rev p"
    using assms by auto
  show ?thesis unfolding pathBasename_def Let_def d t by simp
qed

lemma lastIndexOf_leading:
  assumes "c \<notin> set rest"
  shows "lastIndexOf (c # rest) c = 0"
proof -
  have "takeWhile (\<lambda>x. x \<noteq> c) (rev rest) = rev rest"
    using assms by auto
  then have t: "takeWhile (\<lambda>x. x \<noteq> c) (rev (c # rest)) = rev rest"
    by (simp add: takeWhile_tail)
  show ?thesis unfolding lastIndexOf_def t by simp
qed

text \<open>
  Claim C10. For every file name that is a single leading dot followed by characters
  none of which is a dot (for example \<open>.env\<close>), \<open>path.extname\<close> yields the empty string
  and \<open>isTextFile\<close> returns false, although \<open>.env\<close> is in the list of recognised
  extensions.
\<close>

theorem isTextFile_dotfile:
  assumes "dot \<notin> set rest" and "slash \<notin> set rest"
  shows "pathExtname (dot # rest) = [] \<and> \<not> isTextFile (dot # rest)
       \<and> ''.env'' \<in> set textExtensions"
proof -
  have "slash \<notin> set (dot # rest)" using assms(2) by (simp add: dot_def slash_def)
  then have b: "pathBasename (dot # rest) = dot # rest" by (rule pathBasename_plain)
  have i: "lastIndexOf (dot # rest) dot = 0" using assms(1) by (rule lastIndexOf_leading)
  have e: "pathExtname (dot # rest) = []"
    unfolding pathExtname_def b i Let_def by simp
  have "[] \<notin> set textExtensions" by (simp add: textExtensions_def)
  then have "\<not> isTextFile (dot # rest)" by (simp add: isTextFile_def e toLowerCase_def)
  moreover have "''.env'' \<in> set textExtensions" by (simp add: textExtensions_def)
  ultimately show ?thesis using e by simp
qed

theorem isTextFile_dotfile_witness:
  "dot \<notin> set ''env'' \<and> slash \<notin> set ''env'' \<and> dot # ''env'' = ''.env''
   \<and> pathExtname ''.env'' = [] \<and> \<not> isTextFile ''.env''"
proof -
  have h1: "dot \<notin> set ''env''" by (simp add: dot_def)
  have h2: "slash \<notin> set ''env''" by (simp add: slash_def)
  have n: "dot # ''env'' = ''.env''" by (simp add: dot_def)
  from isTextFile_dotfile [OF h1 h2] h1 h2 n show ?thesis by simp
qed

text \<open>The extension is compared in lower case, and only the last component counts.\<close>

lemma lowerChar_examples: "lowerChar CHR ''E'' = CHR ''e'' \<and> lowerChar CHR ''z'' = CHR ''z''
    \<and> lowerChar CHR ''Z'' = CHR ''z'' \<and> lowerChar CHR ''.'' = CHR ''.''"
  by (simp add: lowerChar_def)

lemma isTextFile_named_env: "isTextFile ''prod.ENV'' \<and> \<not> isTextFile ''config/.env''"
  by (simp add: isTextFile_def pathExtname_def pathBasename_def lastIndexOf_def
        toLowerCase_def lowerChar_def textExtensions_def slash_def dot_def Let_def)

section \<open>Aggregation of file content\<close>

lemmas fs_eval =
  getContextFromPath_def readDirectory_def readFile_def storageFs_def systemError_def
  newError_def messageOf_def pathJoin_def pathBasename_def pathNormalize_def
  normalizeString_def slash_def Let_def splitOn_eval

text \<open>What the code does on a single file and on a directory.\<close>

lemma getContextFromPath_single_file:
  "stat fs targetPath = Inr False \<Longrightarrow> readFileUtf8 fs targetPath = Inr fileText \<Longrightarrow>
     getContextFromPath fs targetPath =
       Inr [\<lparr> name = pathBasename targetPath, path = targetPath, type = File,
              content = Some fileText \<rparr>]"
  by (simp add: getContextFromPath_def readFile_def)

lemma getContextFromPath_directory_listing:
  "stat fs targetPath = Inr True \<Longrightarrow> readdir fs targetPath = Inr entries \<Longrightarrow>
     getContextFromPath fs targetPath =
       Inr (map (\<lambda>entry. \<lparr> name = fst entry, path = pathJoin targetPath (fst entry),
                             type = (if snd entry then Directory else File),
                             content = None \<rparr>) entries)"
  by (simp add: getContextFromPath_def readDirectory_def case_prod_beta)

text \<open>
  A directory never contributes to the context of a query: none of its records has
  \<open>content\<close>, and the route keeps the records that have it.
\<close>

lemma queryContext_no_content:
  "list_all (\<lambda>file. content file = None) contextFiles \<Longrightarrow> queryContext contextFiles = []"
proof -
  assume "list_all (\<lambda>file. content file = None) contextFiles"
  then have "filter (\<lambda>file. (case content file of None \<Rightarrow> False | Some c \<Rightarrow> c \<noteq> [])
                             \<and> isTextFile (path file)) contextFiles = []"
    by (induction contextFiles) simp_all
  then show ?thesis by (simp add: queryContext_def)
qed

lemma directory_query_context_empty:
  assumes "stat fs targetPath = Inr True"
    and "getContextFromPath fs targetPath = Inr infos"
  shows "queryContext infos = []"
proof -
  from assms have rd: "readDirectory fs targetPath = Inr infos"
    by (simp add: getContextFromPath_def)
  then obtain entries where "readdir fs targetPath = Inr entries"
    by (cases "readdir fs targetPath") (simp_all add: readDirectory_def)
  with assms(1) rd have "list_all (\<lambda>file. content file = None) infos"
    by (auto simp: readDirectory_def list_all_iff)
  then show ?thesis by (rule queryContext_no_content)
qed

text \<open>
  Claim C2: on a single-file path \<open>getContextFromPath\<close> returns exactly one record, with
  \<open>content\<close> the file's full text; on a directory path it returns one record per immediate
  child, with \<open>content\<close> set to the full text for child files and unset for child
  subdirectories. The code keeps the first half and breaks the second: \<open>readDirectory\<close>
  lists the entries and reads no file. In the directory \<open>/data\<close> the child \<open>a.txt\<close> holds
  \<open>hello world\<close>; asked for \<open>/data/a.txt\<close> the code returns that text, asked for \<open>/data\<close>
  it returns the record of \<open>a.txt\<close> without \<open>content\<close>, and the context that the query route
  builds from the directory is empty.
\<close>

theorem getContextFromPath_directory_drops_content:
  "stat storageFs ''/data'' = Inr True
   \<and> readFileUtf8 storageFs ''/data/a.txt'' = Inr ''hello world''
   \<and> getContextFromPath storageFs ''/data/a.txt'' =
       Inr [\<lparr> name = ''a.txt'', path = ''/data/a.txt'', type = File,
              content = Some ''hello world'' \<rparr>]
   \<and> queryContext [\<lparr> name = ''a.txt'', path = ''/data/a.txt'', type = File,
                       content = Some ''hello world'' \<rparr>]
       = ''File: a.txt'' @ [newline] @ ''hello world''
   \<and> getContextFromPath storageFs ''/data'' =
       Inr [\<lparr> name = ''a.txt'', path = ''/data/a.txt'', type = File, content = None \<rparr>,
            \<lparr> name = ''broken.txt'', path = ''/data/broken.txt'', type = File, content = None \<rparr>,
            \<lparr> name = ''locked'', path = ''/data/locked'', type = Directory, content = None \<rparr>,
            \<lparr> name = ''secret.txt'', path = ''/data/secret.txt'', type = File, content = None \<rparr>,
            \<lparr> name = ''sub'', path = ''/data/sub'', type = Directory, content = None \<rparr>]
   \<and> queryContext
         [\<lparr> name = ''a.txt'', path = ''/data/a.txt'', type = File, content = None \<rparr>,
          \<lparr> name = ''broken.txt'', path = ''/data/broken.txt'', type = File, content = None \<rparr>,
          \<lparr> name = ''locked'', path = ''/data/locked'', type = Directory, content = None \<rparr>,
          \<lparr> name = ''secret.txt'', path = ''/data/secret.txt'', type = File, content = None \<rparr>,
          \<lparr> name = ''sub'', path = ''/data/sub'', type = Directory, content = None \<rparr>]
       = []"
proof -
  have s: "stat storageFs ''/data'' = Inr True"
    and r: "readFileUtf8 storageFs ''/data/a.txt'' = Inr ''hello world''"
    by (simp_all add: storageFs_def)
  have f: "getContextFromPath storageFs ''/data/a.txt'' =
       Inr [\<lparr> name = ''a.txt'', path = ''/data/a.txt'', type = File,
              content = Some ''hello world'' \<rparr>]"
    by (simp add: fs_eval del: splitOn.simps(2))
  have t: "isTextFile ''/data/a.txt''"
    by (simp add: isTextFile_def pathExtname_def pathBasename_def lastIndexOf_def
          toLowerCase_def lowerChar_def textExtensions_def slash_def dot_def Let_def)
  have qf: "queryContext [\<lparr> name = ''a.txt'', path = ''/data/a.txt'', type = File,
                       content = Some ''hello world'' \<rparr>]
       = ''File: a.txt'' @ [newline] @ ''hello world''"
    using t by (simp add: queryContext_def)
  have d: "getContextFromPath storageFs ''/data'' =
       Inr [\<lparr> name = ''a.txt'', path = ''/data/a.txt'', type = File, content = None \<rparr>,
            \<lparr> name = ''broken.txt'', path = ''/data/broken.txt'', type = File, content = None \<rparr>,
            \<lparr> name = ''locked'', path = ''/data/locked'', type = Directory, content = None \<rparr>,
            \<lparr> name = ''secret.txt'', path = ''/data/secret.txt'', type = File, content = None \<rparr>,
            \<lparr> name = ''sub'', path = ''/data/sub'', type = Directory, content = None \<rparr>]"
    by (simp add: fs_eval del: splitOn.simps(2))
  have qd: "queryContext
         [\<lparr> name = ''a.txt'', path = ''/data/a.txt'', type = File, content = None \<rparr>,
          \<lparr> name = ''broken.txt'', path = ''/data/broken.txt'', type = File, content = None \<rparr>,
          \<lparr> name = ''locked'', path = ''/data/locked'', type = Directory, content = None \<rparr>,
          \<lparr> name = ''secret.txt'', path = ''/data/secret.txt'', type = File, content = None \<rparr>,
          \<lparr> name = ''sub'', path = ''/data/sub'', type = Directory, content = None \<rparr>]
       = []"
    by (rule queryContext_no_content) simp
  from s r f qf d qd show ?thesis by blast
qed

text \<open>
  Claim C7, as stated: aggregation fails with \<open>NotFoundError\<close> when the path does not
  exist, \<open>PermissionError\<close> when the entry is unreadable and \<open>ReadError\<close> for any other
  I/O failure, so that failures are distinguishable by kind rather than by a string. The
  code has no such error classes: an unreadable file and a file whose read fails with an
  I/O error both give a plain \<open>Error\<close> without a code, which differ in the message string
  only, and a missing path gives the file system's own \<open>Error\<close> with the code \<open>ENOENT\<close>.
\<close>

theorem getContextFromPath_error_kind_counterexample:
  "getContextFromPath storageFs ''/data/secret.txt'' =
     Inl (ErrorObj ''Error'' None
            (''Failed to read file: EACCES: permission denied, open '' @ [CHR 0x27] @ ''/data/secret.txt'' @ [CHR 0x27]))
   \<and> getContextFromPath storageFs ''/data/broken.txt'' =
     Inl (ErrorObj ''Error'' None
            (''Failed to read file: EIO: i/o error, read '' @ [CHR 0x27] @ ''/data/broken.txt'' @ [CHR 0x27]))
   \<and> getContextFromPath storageFs ''/data/missing'' =
     Inl (ErrorObj ''Error'' (Some ''ENOENT'')
            (''ENOENT: no such file or directory, stat '' @ [CHR 0x27] @ ''/data/missing'' @ [CHR 0x27]))"
  by (simp add: fs_eval del: splitOn.simps(2))

text \<open>
  Claim C7, amended: a failure of the initial \<open>stat\<close> (the path does not exist, or may
  not be looked up) is the failure of the aggregation, unchanged, with the file system's
  own code and message; a failure of reading the file or of listing the directory becomes
  a plain \<open>Error\<close> whose message is \<open>Failed to read file: \<close> or
  \<open>Failed to read directory: \<close> followed by the message of the underlying failure
  (\<open>Unknown error\<close> when that is not an \<open>Error\<close>); the aggregation fails in no other way.
\<close>

theorem getContextFromPath_failures:
  "(stat fs targetPath = Inl e \<longrightarrow> getContextFromPath fs targetPath = Inl e)
   \<and> (stat fs targetPath = Inr False \<and> readFileUtf8 fs targetPath = Inl e \<longrightarrow>
        getContextFromPath fs targetPath
          = Inl (ErrorObj ''Error'' None (''Failed to read file: '' @ messageOf e)))
   \<and> (stat fs targetPath = Inr True \<and> readdir fs targetPath = Inl e \<longrightarrow>
        getContextFromPath fs targetPath
          = Inl (ErrorObj ''Error'' None (''Failed to read directory: '' @ messageOf e)))
   \<and> (\<forall>x. getContextFromPath fs targetPath = Inl x \<longrightarrow>
          stat fs targetPath = Inl x
          \<or> (\<exists>cause. x = ErrorObj ''Error'' None (''Failed to read file: '' @ messageOf cause))
          \<or> (\<exists>cause. x = ErrorObj ''Error'' None (''Failed to read directory: '' @ messageOf cause)))"
  by (auto simp: getContextFromPath_def readFile_def readDirectory_def newError_def
        split: sum.splits if_splits)

theorem getContextFromPath_failures_witness:
  "stat storageFs ''/data/missing''
      = Inl (systemError ''ENOENT'' ''no such file or directory'' ''stat'' ''/data/missing'')
   \<and> getContextFromPath storageFs ''/data/missing''
      = Inl (systemError ''ENOENT'' ''no such file or directory'' ''stat'' ''/data/missing'')
   \<and> stat storageFs ''/data/secret.txt'' = Inr False
   \<and> readFileUtf8 storageFs ''/data/secret.txt''
      = Inl (systemError ''EACCES'' ''permission denied'' ''open'' ''/data/secret.txt'')
   \<and> getContextFromPath storageFs ''/data/secret.txt''
      = Inl (ErrorObj ''Error'' None (''Failed to read file: ''
           @ messageOf (systemError ''EACCES'' ''permission denied'' ''open'' ''/data/secret.txt'')))
   \<and> stat storageFs ''/data/locked'' = Inr True
   \<and> readdir storageFs ''/data/locked''
      = Inl (systemError ''EACCES'' ''permission denied'' ''scandir'' ''/data/locked'')
   \<and> getContextFromPath storageFs ''/data/locked''
      = Inl (ErrorObj ''Error'' None (''Failed to read directory: ''
           @ messageOf (systemError ''EACCES'' ''permission denied'' ''scandir'' ''/data/locked'')))"
proof -
  have s1: "stat storageFs ''/data/missing''
      = Inl (systemError ''ENOENT'' ''no such file or directory'' ''stat'' ''/data/missing'')"
    and s2: "stat storageFs ''/data/secret.txt'' = Inr False"
    and s3: "readFileUtf8 storageFs ''/data/secret.txt''
      = Inl (systemError ''EACCES'' ''permission denied'' ''open'' ''/data/secret.txt'')"
    and s4: "stat storageFs ''/data/locked'' = Inr True"
    and s5: "readdir storageFs ''/data/locked''
      = Inl (systemError ''EACCES'' ''permission denied'' ''scandir'' ''/data/locked'')"
    by (simp_all add: storageFs_def)
  from getContextFromPath_failures [of storageFs "''/data/missing''"
      "systemError ''ENOENT'' ''no such file or directory'' ''stat'' ''/data/missing''"] s1
  have a: "getContextFromPath storageFs ''/data/missing''
      = Inl (systemError ''ENOENT'' ''no such file or directory'' ''stat'' ''/data/missing'')"
    by blast
  from getContextFromPath_failures [of storageFs "''/data/secret.txt''"
      "systemError ''EACCES'' ''permission denied'' ''open'' ''/data/secret.txt''"] s2 s3
  have b: "getContextFromPath storageFs ''/data/secret.txt''
      = Inl (ErrorObj ''Error'' None (''Failed to read file: ''
           @ messageOf (systemError ''EACCES'' ''permission denied'' ''open'' ''/data/secret.txt'')))"
    by blast
  from getContextFromPath_failures [of storageFs "''/data/locked''"
      "systemError ''EACCES'' ''permission denied'' ''scandir'' ''/data/locked''"] s4 s5
  have c: "getContextFromPath storageFs ''/data/locked''
      = Inl (ErrorObj ''Error'' None (''Failed to read directory: ''
           @ messageOf (systemError ''EACCES'' ''permission denied'' ''scandir'' ''/data/locked'')))"
    by blast
  from s1 s2 s3 s4 s5 a b c show ?thesis by blast
qed

section \<open>The provider queries\<close>

text \<open>Both functions, with the \<open>try\<close> and the \<open>catch\<close> read together.\<close>

lemma getProp_throws: "getProp v k = Inl t \<Longrightarrow> (v = Undefined \<or> v = Null) \<and> messageOf t \<noteq> []"
  by (cases v) (auto simp: typeError_def messageOf_def)

lemma getProp_value_truthy: "getProp v k = Inr r \<Longrightarrow> r \<noteq> Undefined \<Longrightarrow> truthy v"
  by (cases v) auto

lemma truthy_getProp: "truthy v \<Longrightarrow> \<exists>r. getProp v k = Inr r"
  by (cases v) auto

lemma queryOllama_cases:
  "queryOllama cfg post prompt context =
     (case ollamaPost cfg post prompt context of
        Inl e \<Rightarrow> \<lparr> text = Str [], model = ''ollama'', error = Some (messageOf e) \<rparr>
      | Inr data \<Rightarrow>
          (case getProp data ''response'' of
             Inr r \<Rightarrow>
               if truthy data \<and> truthy r
               then \<lparr> text = r, model = ''ollama'', error = None \<rparr>
               else \<lparr> text = Str [], model = ''ollama'',
                      error = Some ''Invalid response from Ollama'' \<rparr>
           | Inl t \<Rightarrow> \<lparr> text = Str [], model = ''ollama'',
                         error = Some ''Invalid response from Ollama'' \<rparr>))"
proof (cases "ollamaPost cfg post prompt context")
  case (Inl e)
  then show ?thesis by (simp add: queryOllama_def ollamaTry_def)
next
  case (Inr data)
  show ?thesis
  proof (cases "getProp data ''response''")
    case (Inl t)
    then have "\<not> truthy data" using getProp_throws [of data "''response''" t] by auto
    with Inl Inr show ?thesis
      by (simp add: queryOllama_def ollamaTry_def newError_def messageOf_def)
  next
    case (Inr r)
    with \<open>ollamaPost cfg post prompt context = Inr data\<close> show ?thesis
      by (simp add: queryOllama_def ollamaTry_def newError_def messageOf_def)
  qed
qed

lemma queryTogether_cases:
  "queryTogether cfg post prompt context =
     (case togetherPost cfg post prompt context of
        Inl e \<Rightarrow> \<lparr> text = Str [], model = ''together'', error = Some (messageOf e) \<rparr>
      | Inr data \<Rightarrow>
          (case getProp data ''output'' of
             Inl t \<Rightarrow> \<lparr> text = Str [], model = ''together'', error = Some (messageOf t) \<rparr>
           | Inr output \<Rightarrow>
               (case getProp output ''text'' of
                  Inl t \<Rightarrow> \<lparr> text = Str [], model = ''together'', error = Some (messageOf t) \<rparr>
                | Inr t \<Rightarrow> \<lparr> text = t, model = ''together'', error = None \<rparr>)))"
  by (simp add: queryTogether_def togetherTry_def split: sum.splits)

text \<open>
  Claim C9. The two providers treat an empty answer differently: \<open>queryOllama\<close> turns a
  response whose data or whose \<open>response\<close> field is missing or empty into an error-shaped
  result, while \<open>queryTogether\<close>, given a well-formed response whose \<open>output.text\<close> is the
  empty string, returns a success-shaped result with \<open>text = ""\<close> and no \<open>error\<close> field.
\<close>

theorem provider_empty_answer_asymmetry:
  "(ollamaPost cfg post prompt context = Inr data
      \<and> (\<not> truthy data \<or> (\<exists>r. getProp data ''response'' = Inr r \<and> \<not> truthy r)) \<longrightarrow>
        queryOllama cfg post prompt context =
          \<lparr> text = Str [], model = ''ollama'', error = Some ''Invalid response from Ollama'' \<rparr>)
   \<and> (togetherPost cfg post prompt context = Inr data'
        \<and> getProp data' ''output'' = Inr output \<and> getProp output ''text'' = Inr (Str []) \<longrightarrow>
        queryTogether cfg post prompt context =
          \<lparr> text = Str [], model = ''together'', error = None \<rparr>)"
  by (auto simp: queryOllama_cases queryTogether_cases split: sum.splits)

theorem provider_empty_answer_asymmetry_witness:
  "ollamaPost exampleConfig (constantBackend (Inr (Object [(''response'', Str [])])))
       ''summarize'' ''hello world'' = Inr (Object [(''response'', Str [])])
   \<and> getProp (Object [(''response'', Str [])]) ''response'' = Inr (Str []) \<and> \<not> truthy (Str [])
   \<and> queryOllama exampleConfig (constantBackend (Inr (Object [(''response'', Str [])])))
       ''summarize'' ''hello world'' =
         \<lparr> text = Str [], model = ''ollama'', error = Some ''Invalid response from Ollama'' \<rparr>
   \<and> togetherPost exampleConfig
         (constantBackend (Inr (Object [(''output'', Object [(''text'', Str [])])])))
         ''summarize'' ''hello world'' = Inr (Object [(''output'', Object [(''text'', Str [])])])
   \<and> getProp (Object [(''output'', Object [(''text'', Str [])])]) ''output''
         = Inr (Object [(''text'', Str [])])
   \<and> getProp (Object [(''text'', Str [])]) ''text'' = Inr (Str [])
   \<and> queryTogether exampleConfig
         (constantBackend (Inr (Object [(''output'', Object [(''text'', Str [])])])))
         ''summarize'' ''hello world'' =
         \<lparr> text = Str [], model = ''together'', error = None \<rparr>"
proof -
  let ?o = "Object [(''response'', Str [])]"
  let ?t = "Object [(''output'', Object [(''text'', Str [])])]"
  have o1: "ollamaPost exampleConfig (constantBackend (Inr ?o)) ''summarize'' ''hello world'' = Inr ?o"
    by (simp add: ollamaPost_def constantBackend_def)
  have o2: "getProp ?o ''response'' = Inr (Str [])" by simp
  have o3: "\<not> truthy (Str [])" by simp
  have t1: "togetherPost exampleConfig (constantBackend (Inr ?t)) ''summarize'' ''hello world'' = Inr ?t"
    by (simp add: togetherPost_def constantBackend_def)
  have t2: "getProp ?t ''output'' = Inr (Object [(''text'', Str [])])" by simp
  have t3: "getProp (Object [(''text'', Str [])]) ''text'' = Inr (Str [])" by simp
  from provider_empty_answer_asymmetry [of exampleConfig "constantBackend (Inr ?o)"
      "''summarize''" "''hello world''" ?o] o1 o2 o3
  have a: "queryOllama exampleConfig (constantBackend (Inr ?o)) ''summarize'' ''hello world'' =
         \<lparr> text = Str [], model = ''ollama'', error = Some ''Invalid response from Ollama'' \<rparr>"
    by blast
  from provider_empty_answer_asymmetry [of exampleConfig "constantBackend (Inr ?t)"
      "''summarize''" "''hello world''" Undefined ?t "Object [(''text'', Str [])]"] t1 t2 t3
  have b: "queryTogether exampleConfig (constantBackend (Inr ?t)) ''summarize'' ''hello world'' =
         \<lparr> text = Str [], model = ''together'', error = None \<rparr>"
    by blast
  from o1 o2 o3 a t1 t2 t3 b show ?thesis by blast
qed

text \<open>
  Claim C3, as stated: for every failure of the backend call (transport, authentication,
  timeout or malformed response) both query functions return a response with empty
  \<open>text\<close> and a non-empty \<open>error\<close> string. The \<open>error\<close> string is the message of the
  thrown \<open>Error\<close>, so it is empty when that message is; and a response from which
  \<open>queryTogether\<close> can read \<open>output\<close> but no \<open>text\<close> raises nothing and comes back without
  an \<open>error\<close>.
\<close>

theorem query_failure_counterexample:
  "queryOllama exampleConfig (constantBackend (Inl (ErrorObj ''Error'' None [])))
       ''summarize'' ''hello world''
     = \<lparr> text = Str [], model = ''ollama'', error = Some [] \<rparr>
   \<and> queryTogether exampleConfig (constantBackend (Inl (ErrorObj ''Error'' None [])))
       ''summarize'' ''hello world''
     = \<lparr> text = Str [], model = ''together'', error = Some [] \<rparr>
   \<and> queryTogether exampleConfig (constantBackend (Inr (Object [(''output'', Object [])])))
       ''summarize'' ''hello world''
     = \<lparr> text = Undefined, model = ''together'', error = None \<rparr>"
  by (simp add: queryOllama_cases queryTogether_cases ollamaPost_def togetherPost_def
        constantBackend_def messageOf_def)

text \<open>
  Claim C3, amended: for every prompt and context, both query functions return a response
  and never propagate an exception, and the \<open>model\<close> field of the response is always the
  literal provider identifier. Whenever the backend call rejects, the response has
  \<open>text = ""\<close> and \<open>error\<close> equal to the message of the thrown \<open>Error\<close> (\<open>Unknown error\<close>
  when the thrown value is not an \<open>Error\<close>), which is non-empty whenever that message is.
  \<open>queryOllama\<close> also answers so, with the error \<open>Invalid response from Ollama\<close>, when
  the data or its \<open>response\<close> field is missing or empty, and \<open>queryTogether\<close> when reading
  \<open>output\<close> or \<open>output.text\<close> raises a \<open>TypeError\<close>, whose message is not empty.
\<close>

theorem query_failure_normalised:
  "model (queryOllama cfg post prompt context) = ''ollama''
   \<and> model (queryTogether cfg post prompt context) = ''together''
   \<and> (ollamaPost cfg post prompt context = Inl e \<longrightarrow>
        queryOllama cfg post prompt context =
          \<lparr> text = Str [], model = ''ollama'', error = Some (messageOf e) \<rparr>)
   \<and> (togetherPost cfg post prompt context = Inl e \<longrightarrow>
        queryTogether cfg post prompt context =
          \<lparr> text = Str [], model = ''together'', error = Some (messageOf e) \<rparr>)
   \<and> (ollamaPost cfg post prompt context = Inr data
        \<and> (\<not> truthy data \<or> (\<exists>r. getProp data ''response'' = Inr r \<and> \<not> truthy r)) \<longrightarrow>
        queryOllama cfg post prompt context =
          \<lparr> text = Str [], model = ''ollama'', error = Some ''Invalid response from Ollama'' \<rparr>)
   \<and> (togetherPost cfg post prompt context = Inr data
        \<and> (getProp data ''output'' = Inl t
             \<or> (\<exists>output. getProp data ''output'' = Inr output \<and> getProp output ''text'' = Inl t)) \<longrightarrow>
        queryTogether cfg post prompt context =
          \<lparr> text = Str [], model = ''together'', error = Some (messageOf t) \<rparr>
        \<and> messageOf t \<noteq> [])
   \<and> ((\<forall>n c m. e = ErrorObj n c m \<longrightarrow> m \<noteq> []) \<longrightarrow> messageOf e \<noteq> [])"
proof -
  have m1: "model (queryOllama cfg post prompt context) = ''ollama''"
    by (simp add: queryOllama_cases split: sum.splits)
  have m2: "model (queryTogether cfg post prompt context) = ''together''"
    by (simp add: queryTogether_cases split: sum.splits)
  have r1: "ollamaPost cfg post prompt context = Inl e \<longrightarrow>
        queryOllama cfg post prompt context =
          \<lparr> text = Str [], model = ''ollama'', error = Some (messageOf e) \<rparr>"
    by (simp add: queryOllama_cases)
  have r2: "togetherPost cfg post prompt context = Inl e \<longrightarrow>
        queryTogether cfg post prompt context =
          \<lparr> text = Str [], model = ''together'', error = Some (messageOf e) \<rparr>"
    by (simp add: queryTogether_cases)
  have v1: "ollamaPost cfg post prompt context = Inr data
        \<and> (\<not> truthy data \<or> (\<exists>r. getProp data ''response'' = Inr r \<and> \<not> truthy r)) \<longrightarrow>
        queryOllama cfg post prompt context =
          \<lparr> text = Str [], model = ''ollama'', error = Some ''Invalid response from Ollama'' \<rparr>"
    by (auto simp: queryOllama_cases split: sum.splits)
  have v2: "togetherPost cfg post prompt context = Inr data
        \<and> (getProp data ''output'' = Inl t
             \<or> (\<exists>output. getProp data ''output'' = Inr output \<and> getProp output ''text'' = Inl t)) \<longrightarrow>
        queryTogether cfg post prompt context =
          \<lparr> text = Str [], model = ''together'', error = Some (messageOf t) \<rparr>
        \<and> messageOf t \<noteq> []"
    using getProp_throws by (auto simp: queryTogether_cases)
  have n: "(\<forall>n c m. e = ErrorObj n c m \<longrightarrow> m \<noteq> []) \<longrightarrow> messageOf e \<noteq> []"
    by (cases e) (simp_all add: messageOf_def)
  from m1 m2 r1 r2 v1 v2 n show ?thesis by blast
qed

theorem query_failure_normalised_witness:
  "ollamaPost exampleConfig
       (constantBackend (Inl (ErrorObj ''AxiosError'' (Some ''ECONNABORTED'') ''timeout of 1000ms exceeded'')))
       ''summarize'' ''hello world''
     = Inl (ErrorObj ''AxiosError'' (Some ''ECONNABORTED'') ''timeout of 1000ms exceeded'')
   \<and> queryOllama exampleConfig
       (constantBackend (Inl (ErrorObj ''AxiosError'' (Some ''ECONNABORTED'') ''timeout of 1000ms exceeded'')))
       ''summarize'' ''hello world''
     = \<lparr> text = Str [], model = ''ollama'', error = Some ''timeout of 1000ms exceeded'' \<rparr>
   \<and> togetherPost exampleConfig (constantBackend (Inl NonError)) ''summarize'' ''hello world''
     = Inl NonError
   \<and> queryTogether exampleConfig (constantBackend (Inl NonError)) ''summarize'' ''hello world''
     = \<lparr> text = Str [], model = ''together'', error = Some ''Unknown error'' \<rparr>
   \<and> togetherPost exampleConfig (constantBackend (Inr (Object []))) ''summarize'' ''hello world''
     = Inr (Object [])
   \<and> getProp (Object []) ''output'' = Inr Undefined
   \<and> error (queryTogether exampleConfig (constantBackend (Inr (Object [])))
               ''summarize'' ''hello world'') \<noteq> Some []
   \<and> text (queryTogether exampleConfig (constantBackend (Inr (Object [])))
               ''summarize'' ''hello world'') = Str []"
proof -
  let ?e = "ErrorObj ''AxiosError'' (Some ''ECONNABORTED'') ''timeout of 1000ms exceeded''"
  let ?t = "typeError (''Cannot read properties of undefined (reading ''
                @ [CHR 0x27] @ ''text'' @ [CHR 0x27] @ '')'')"
  have p1: "ollamaPost exampleConfig (constantBackend (Inl ?e)) ''summarize'' ''hello world'' = Inl ?e"
    by (simp add: ollamaPost_def constantBackend_def)
  have p2: "togetherPost exampleConfig (constantBackend (Inl NonError)) ''summarize'' ''hello world''
      = Inl NonError"
    by (simp add: togetherPost_def constantBackend_def)
  have p3: "togetherPost exampleConfig (constantBackend (Inr (Object []))) ''summarize'' ''hello world''
      = Inr (Object [])"
    by (simp add: togetherPost_def constantBackend_def)
  have g1: "getProp (Object []) ''output'' = Inr Undefined" by simp
  have g2: "getProp Undefined ''text'' = Inl ?t" by simp
  from query_failure_normalised [of exampleConfig "constantBackend (Inl ?e)"
      "''summarize''" "''hello world''" ?e] p1
  have a: "queryOllama exampleConfig (constantBackend (Inl ?e)) ''summarize'' ''hello world''
     = \<lparr> text = Str [], model = ''ollama'', error = Some ''timeout of 1000ms exceeded'' \<rparr>"
    by (simp add: messageOf_def)
  from query_failure_normalised [of exampleConfig "constantBackend (Inl NonError)"
      "''summarize''" "''hello world''" NonError] p2
  have b: "queryTogether exampleConfig (constantBackend (Inl NonError)) ''summarize'' ''hello world''
     = \<lparr> text = Str [], model = ''together'', error = Some ''Unknown error'' \<rparr>"
    by (simp add: messageOf_def)
  from query_failure_normalised [of exampleConfig "constantBackend (Inr (Object []))"
      "''summarize''" "''hello world''" NonError "Object []" ?t] p3 g1 g2
  have c: "queryTogether exampleConfig (constantBackend (Inr (Object []))) ''summarize'' ''hello world''
          = \<lparr> text = Str [], model = ''together'', error = Some (messageOf ?t) \<rparr>
        \<and> messageOf ?t \<noteq> []"
    by blast
  then have d: "error (queryTogether exampleConfig (constantBackend (Inr (Object [])))
               ''summarize'' ''hello world'') \<noteq> Some []
      \<and> text (queryTogether exampleConfig (constantBackend (Inr (Object [])))
               ''summarize'' ''hello world'') = Str []"
    by simp
  from p1 a p2 b p3 g1 d show ?thesis by blast
qed

text \<open>
  Claim C6, as stated: every response has both \<open>text\<close> and \<open>error\<close> present as strings,
  and a successful query yields \<open>{text: answer, model: provider, error: ""}\<close>. The success
  branches build the object without an \<open>error\<close> property: the field is absent, not the
  empty string.
\<close>

theorem response_error_field_counterexample:
  "queryOllama exampleConfig (constantBackend (Inr (Object [(''response'', Str ''A greeting.'')])))
       ''summarize'' ''hello world''
     = \<lparr> text = Str ''A greeting.'', model = ''ollama'', error = None \<rparr>
   \<and> error (queryOllama exampleConfig
               (constantBackend (Inr (Object [(''response'', Str ''A greeting.'')])))
               ''summarize'' ''hello world'') \<noteq> Some []"
  by (simp add: queryOllama_cases ollamaPost_def constantBackend_def)

text \<open>
  Claim C6, amended: every response of the two query functions has one of two shapes.
  Either it has no \<open>error\<close> property (success), and then for \<open>queryOllama\<close> its \<open>text\<close> is
  truthy, that is non-empty when it is a string; or it has an \<open>error\<close> string (failure),
  and then its \<open>text\<close> is the empty string. In particular a successful query yields
  \<open>{text: answer, model: provider}\<close> with the answer that the backend sent.
\<close>

theorem response_shape:
  "(error (queryOllama cfg post prompt context) = None
      \<and> truthy (text (queryOllama cfg post prompt context))
    \<or> (\<exists>m. error (queryOllama cfg post prompt context) = Some m)
      \<and> text (queryOllama cfg post prompt context) = Str [])
   \<and> (error (queryTogether cfg post prompt context) = None
    \<or> (\<exists>m. error (queryTogether cfg post prompt context) = Some m)
      \<and> text (queryTogether cfg post prompt context) = Str [])
   \<and> (ollamaPost cfg post prompt context = Inr data
        \<and> getProp data ''response'' = Inr (Str answer) \<and> answer \<noteq> [] \<longrightarrow>
        queryOllama cfg post prompt context =
          \<lparr> text = Str answer, model = ''ollama'', error = None \<rparr>)
   \<and> (togetherPost cfg post prompt context = Inr data'
        \<and> getProp data' ''output'' = Inr output
        \<and> getProp output ''text'' = Inr (Str answer') \<longrightarrow>
        queryTogether cfg post prompt context =
          \<lparr> text = Str answer', model = ''together'', error = None \<rparr>)"
proof -
  have o: "error (queryOllama cfg post prompt context) = None
      \<and> truthy (text (queryOllama cfg post prompt context))
    \<or> (\<exists>m. error (queryOllama cfg post prompt context) = Some m)
      \<and> text (queryOllama cfg post prompt context) = Str []"
    by (simp add: queryOllama_cases split: sum.splits)
  have t: "error (queryTogether cfg post prompt context) = None
    \<or> (\<exists>m. error (queryTogether cfg post prompt context) = Some m)
      \<and> text (queryTogether cfg post prompt context) = Str []"
    by (simp add: queryTogether_cases split: sum.splits)
  have so: "ollamaPost cfg post prompt context = Inr data
        \<and> getProp data ''response'' = Inr (Str answer) \<and> answer \<noteq> [] \<longrightarrow>
        queryOllama cfg post prompt context =
          \<lparr> text = Str answer, model = ''ollama'', error = None \<rparr>"
    using getProp_value_truthy [of data "''response''" "Str answer"]
    by (auto simp: queryOllama_cases)
  have st: "togetherPost cfg post prompt context = Inr data'
        \<and> getProp data' ''output'' = Inr output
        \<and> getProp output ''text'' = Inr (Str answer') \<longrightarrow>
        queryTogether cfg post prompt context =
          \<lparr> text = Str answer', model = ''together'', error = None \<rparr>"
    by (auto simp: queryTogether_cases)
  from o t so st show ?thesis by blast
qed

theorem response_shape_witness:
  "ollamaPost exampleConfig
       (constantBackend (Inr (Object [(''response'', Str ''A greeting.'')])))
       ''summarize'' ''hello world'' = Inr (Object [(''response'', Str ''A greeting.'')])
   \<and> getProp (Object [(''response'', Str ''A greeting.'')]) ''response'' = Inr (Str ''A greeting.'')
   \<and> ''A greeting.'' \<noteq> []
   \<and> queryOllama exampleConfig
       (constantBackend (Inr (Object [(''response'', Str ''A greeting.'')])))
       ''summarize'' ''hello world''
     = \<lparr> text = Str ''A greeting.'', model = ''ollama'', error = None \<rparr>
   \<and> togetherPost exampleConfig
       (constantBackend (Inr (Object [(''output'', Object [(''text'', Str ''A greeting.'')])])))
       ''summarize'' ''hello world''
     = Inr (Object [(''output'', Object [(''text'', Str ''A greeting.'')])])
   \<and> queryTogether exampleConfig
       (constantBackend (Inr (Object [(''output'', Object [(''text'', Str ''A greeting.'')])])))
       ''summarize'' ''hello world''
     = \<lparr> text = Str ''A greeting.'', model = ''together'', error = None \<rparr>"
proof -
  let ?o = "Object [(''response'', Str ''A greeting.'')]"
  let ?t = "Object [(''output'', Object [(''text'', Str ''A greeting.'')])]"
  have o1: "ollamaPost exampleConfig (constantBackend (Inr ?o)) ''summarize'' ''hello world'' = Inr ?o"
    by (simp add: ollamaPost_def constantBackend_def)
  have o2: "getProp ?o ''response'' = Inr (Str ''A greeting.'')" by simp
  have o3: "''A greeting.'' \<noteq> []" by simp
  have t1: "togetherPost exampleConfig (constantBackend (Inr ?t)) ''summarize'' ''hello world'' = Inr ?t"
    by (simp add: togetherPost_def constantBackend_def)
  have t2: "getProp ?t ''output'' = Inr (Object [(''text'', Str ''A greeting.'')])" by simp
  have t3: "getProp (Object [(''text'', Str ''A greeting.'')]) ''text'' = Inr (Str ''A greeting.'')"
    by simp
  from response_shape [of exampleConfig "constantBackend (Inr ?o)" "''summarize''"
      "''hello world''" ?o "''A greeting.''"] o1 o2 o3
  have a: "queryOllama exampleConfig (constantBackend (Inr ?o)) ''summarize'' ''hello world''
     = \<lparr> text = Str ''A greeting.'', model = ''ollama'', error = None \<rparr>"
    by blast
  from response_shape [of exampleConfig "constantBackend (Inr ?t)" "''summarize''"
      "''hello world''" Undefined "[]" ?t "Object [(''text'', Str ''A greeting.'')]"
      "''A greeting.''"] t1 t2 t3
  have b: "queryTogether exampleConfig (constantBackend (Inr ?t)) ''summarize'' ''hello world''
     = \<lparr> text = Str ''A greeting.'', model = ''together'', error = None \<rparr>"
    by blast
  from o1 o2 o3 a t1 b show ?thesis by blast
qed

end
